theory Spec2Isabelle
  imports Complex_Main "HOL-Library.Product_Lexorder"
begin

section \<open>Errors\<close>

text \<open>
  The Python exceptions that \<^verbatim>\<open>src/data/utils_dataset.py\<close> and the library calls it makes can
  raise. \<open>ValueError\<close> carries its message: the source raises
  \<^verbatim>\<open>ValueError('Basin not recognized')\<close> itself, the others come from pandas and xarray.
\<close>

datatype error =
    ValueError string
  | KeyError
  | IndexError
  | FileNotFoundError string
  | UnboundLocalError string
  | EmptyDataError
  | InvalidIndexError
  | DateParseError
  | OutOfBoundsDatetime

section \<open>Gridded fields and \<open>crop_field\<close>\<close>

text \<open>
  Coordinates and values are exact rationals (the grid values the source handles, such as
  \<open>-75\<close> or \<open>0.25\<close>, and the shifts by \<open>360\<close> are exact in binary floating point as well).
  A cell of a data array is \<open>None\<close> where the array holds NaN.

  An xarray dataset with the dimensions time, latitude and longitude is kept as its two
  coordinate axes and its time slices. An axis entry pairs the coordinate label with the
  position of that row or column in the stored array, so that sorting and slicing an axis
  never move data. A time slice gives the cell at a latitude entry and a longitude entry:
  a slice read from a file looks at the two positions only, a masked slice also at the
  two labels.
\<close>

type_synonym coord = rat
type_synonym cell = "rat option"
type_synonym axis = "(coord \<times> nat) list"
type_synonym slice = "coord \<times> nat \<Rightarrow> coord \<times> nat \<Rightarrow> cell"

record grid_field =
  latitude :: axis
  longitude :: axis
  tcg :: "slice list"

text \<open>Python's \<^verbatim>\<open>%\<close> on numbers: the result has the sign of the divisor.\<close>

definition pymod :: "rat \<Rightarrow> rat \<Rightarrow> rat" where
  "pymod x m = x - m * of_int \<lfloor>x / m\<rfloor>"

text \<open>The condition of line 28.\<close>

definition crosses_180 :: "coord \<Rightarrow> coord \<Rightarrow> bool" where
  "crosses_180 lon1 lon2 \<longleftrightarrow>
     (lon1 \<le> 180 \<and> lon2 \<ge> -180 \<and> lon1 > lon2) \<or> lon1 = -180 \<or> lon2 = 180"

text \<open>
  Label-based slicing, \<^verbatim>\<open>ds.sel(longitude=slice(a, b))\<close>, as pandas resolves it
  (\<^verbatim>\<open>Index.slice_indexer\<close>): each bound is looked up in the index; on a monotonic index a
  bound is placed by binary search (on a decreasing index, on the reversed index with the
  side flipped); on an index that is not monotonic a bound has to be a label of the index,
  at contiguous positions, and anything else raises \<^verbatim>\<open>KeyError\<close>. Both bounds are inclusive.
\<close>

datatype side = Left | Right

definition searchsorted :: "coord list \<Rightarrow> coord \<Rightarrow> side \<Rightarrow> nat" where
  "searchsorted xs v s =
     (case s of
        Left \<Rightarrow> length (takeWhile (\<lambda>x. x < v) xs)
      | Right \<Rightarrow> length (takeWhile (\<lambda>x. x \<le> v) xs))"

definition flip_side :: "side \<Rightarrow> side" where
  "flip_side s = (case s of Left \<Rightarrow> Right | Right \<Rightarrow> Left)"

definition positions_of :: "coord list \<Rightarrow> coord \<Rightarrow> nat list" where
  "positions_of xs v = filter (\<lambda>i. xs ! i = v) [0 ..< length xs]"

definition get_slice_bound :: "coord list \<Rightarrow> coord \<Rightarrow> side \<Rightarrow> error + nat" where
  "get_slice_bound xs v s =
     (if sorted xs then Inr (searchsorted xs v s)
      else if sorted (rev xs) then Inr (length xs - searchsorted (rev xs) v (flip_side s))
      else (case positions_of xs v of
              [] \<Rightarrow> Inl KeyError
            | p # ps \<Rightarrow>
                if last (p # ps) + 1 - p = length (p # ps)
                then Inr (case s of Left \<Rightarrow> p | Right \<Rightarrow> last (p # ps) + 1)
                else Inl KeyError))"

definition sel_slice :: "axis \<Rightarrow> coord \<Rightarrow> coord \<Rightarrow> error + axis" where
  "sel_slice ax a b =
     (case get_slice_bound (map fst ax) a Left of
        Inl e \<Rightarrow> Inl e
      | Inr start \<Rightarrow>
          (case get_slice_bound (map fst ax) b Right of
             Inl e \<Rightarrow> Inl e
           | Inr stop \<Rightarrow> Inr (take (stop - start) (drop start ax))))"

text \<open>
  Lines 29 and 30: the longitude labels are re-based to \<open>[0, 360)\<close> and the dataset is
  sorted by them (\<^verbatim>\<open>sortby\<close> is a stable sort).
\<close>

definition rebase_longitude :: "axis \<Rightarrow> axis" where
  "rebase_longitude ax = sort_key fst (map (\<lambda>(x, j). (pymod (x + 360) 360, j)) ax)"

definition crop_field ::
  "grid_field \<Rightarrow> coord \<Rightarrow> coord \<Rightarrow> coord \<Rightarrow> coord \<Rightarrow> error + grid_field" where
  "crop_field var lon1 lon2 lat1 lat2 =
     (let cross = crosses_180 lon1 lon2;
          ds = (if cross then var\<lparr>longitude := rebase_longitude (longitude var)\<rparr> else var);
          lon2' = (if cross \<and> lon2 < 0 then lon2 + 360 else lon2);
          lon1' = (if cross \<and> lon1 < 0 then lon1 + 360 else lon1)
      in case sel_slice (longitude ds) lon1' lon2' of
           Inl e \<Rightarrow> Inl e
         | Inr lo \<Rightarrow>
             (case sel_slice (latitude ds) lat2 lat1 of
                Inl e \<Rightarrow> Inl e
              | Inr la \<Rightarrow> Inr (ds\<lparr>longitude := lo, latitude := la\<rparr>)))"

text \<open>
  The latitude axis of a field as the source expects it (line 35 slices from the northern
  to the southern bound): the labels descend, and not all of them are equal.
\<close>

definition north_to_south :: "axis \<Rightarrow> bool" where
  "north_to_south ax \<longleftrightarrow> sorted (rev (map fst ax)) \<and> \<not> sorted (map fst ax)"

section \<open>The calendar\<close>

text \<open>
  A timestamp is a date (year, month, day); the lexicographic order of the triples is the
  chronological order. \<open>month_starts\<close> lists the first days of the months from one month
  to another, both included, and nothing when the second lies before the first.
  \<^verbatim>\<open>pd.date_range(start, end, freq='MS')\<close> lists the month starts that lie between its two
  timestamps: from the month of the start, or from the next one when the start is not the
  first day of its month, to the month of the end.
\<close>

type_synonym date = "int \<times> nat \<times> nat"

function month_starts :: "int \<times> nat \<Rightarrow> int \<times> nat \<Rightarrow> date list" where
  "month_starts (y, m) (ey, em) =
     (if y < ey \<or> (y = ey \<and> m \<le> em)
      then (y, m, 1) # month_starts (if 12 \<le> m then (y + 1, 1) else (y, m + 1)) (ey, em)
      else [])"
  by pat_completeness auto
termination
  by (relation "measures [\<lambda>((y, m), (ey, em)). nat (ey - y + 1),
                          \<lambda>((y, m), (ey, em)). em + 13 - m]") auto

declare month_starts.simps [simp del]

definition date_range_MS :: "date \<Rightarrow> date \<Rightarrow> date list" where
  "date_range_MS t0 t1 =
     (case (t0, t1) of
        ((y, m, d), (ey, em, ed)) \<Rightarrow>
          month_starts (if d = 1 then (y, m) else if 12 \<le> m then (y + 1, 1) else (y, m + 1))
            (ey, em))"

text \<open>The calendar of the years from \<open>first_year\<close> to \<open>last_year\<close>, January to December.\<close>

definition date_range :: "int \<Rightarrow> int \<Rightarrow> date list" where
  "date_range first_year last_year = month_starts (first_year, 1) (last_year, 12)"

section \<open>Basins\<close>

text \<open>
  Lines 46 to 61, and again lines 137 to 152: the chain of comparisons that gives the
  bounding box \<open>(min_lon, max_lon, min_lat, max_lat)\<close> of a basin, and raises for any other
  identifier.
\<close>

type_synonym box = "coord \<times> coord \<times> coord \<times> coord"

definition basin_box :: "string \<Rightarrow> error + box" where
  "basin_box basin =
     (if basin = ''NWP'' then Inr (100, 180, 0, 40)
      else if basin = ''NEP'' then Inr (-180, -75, 0, 40)
      else if basin = ''NA'' then Inr (-100, 0, 0, 40)
      else if basin = ''NI'' then Inr (45, 100, 0, 40)
      else if basin = ''SP'' then Inr (135, -70, -40, 0)
      else if basin = ''SI'' then Inr (35, 135, -40, 0)
      else if basin = ''GLB'' then Inr (-181, 181, -40, 40)
      else Inl (ValueError ''Basin not recognized''))"

section \<open>Tables, frames and the external storage\<close>

text \<open>
  \<open>table\<close> is the data frame that \<^verbatim>\<open>pd.read_table(filename, sep='\s+', header=None)\<close>
  returns: its rows, each a list of cells, with the columns numbered from \<open>0\<close>. The frame
  has the columns of its first row, and a row that is shorter holds NaN in the columns it
  lacks. \<open>frame\<close> is a data frame with a date index and named columns, each column as long
  as the index.
\<close>

type_synonym table = "cell list list"

record frame =
  index :: "date list"
  columns :: "(string \<times> cell list) list"

record decomposition =
  trend :: "cell list"
  seasonal :: "cell list"
  resid :: "cell list"

text \<open>
  A mask raster is a data array on its own latitude and longitude labels, with a value at
  every pair of them.
\<close>

record mask_array =
  mask_latitude :: "coord list"
  mask_longitude :: "coord list"
  mask_value :: "coord \<Rightarrow> coord \<Rightarrow> rat"

text \<open>
  What lies outside of the source: what each reader returns for a path, \<open>None\<close> where no
  file can be opened; the yearly target files, which share one grid (\<open>target_latitude\<close>,
  \<open>target_longitude\<close>) and hold their time slices by stored position; \<open>STL_fit\<close>, which is
  \<^verbatim>\<open>STL(series).fit()\<close> of statsmodels; and \<open>read_timestamp\<close>, what pandas makes of a date
  string that is not the ISO date of a four-digit year inside the range of its
  timestamps.
\<close>

record world =
  index_tables :: "string \<Rightarrow> table option"
  cluster_tables :: "string \<Rightarrow> frame option"
  target_latitude :: axis
  target_longitude :: axis
  target_files :: "string \<Rightarrow> (nat \<Rightarrow> nat \<Rightarrow> cell) list option"
  mask_files :: "string \<Rightarrow> mask_array option"
  STL_fit :: "cell list \<Rightarrow> decomposition"
  read_timestamp :: "string \<Rightarrow> error + date"

text \<open>
  What a run does to its surroundings: the paths it has tried to open, in order, and the
  warnings it has printed.
\<close>

datatype 'i message =
    MissingValues string
  | RepeatsFound string
  | RepeatsAt "'i list"
  | AboveThreshold string

record io =
  opened :: "string list"
  printed :: "date message list"

type_synonym 'a step = "io \<Rightarrow> (error + 'a) \<times> io"

definition bind :: "'a step \<Rightarrow> ('a \<Rightarrow> 'b step) \<Rightarrow> 'b step" where
  "bind m f s = (case m s of (Inl e, s') \<Rightarrow> (Inl e, s') | (Inr x, s') \<Rightarrow> f x s')"

definition lift :: "error + 'a \<Rightarrow> 'a step" where
  "lift r s = (r, s)"

definition open_file :: "(string \<Rightarrow> 'a option) \<Rightarrow> string \<Rightarrow> 'a step" where
  "open_file store path s =
     (case store path of
        None \<Rightarrow> (Inl (FileNotFoundError path), s\<lparr>opened := opened s @ [path]\<rparr>)
      | Some x \<Rightarrow> (Inr x, s\<lparr>opened := opened s @ [path]\<rparr>))"

text \<open>\<^verbatim>\<open>os.path.join\<close> of two components, and \<^verbatim>\<open>f'{year}'\<close> of an integer.\<close>

definition path_join :: "string \<Rightarrow> string \<Rightarrow> string" where
  "path_join a b =
     (if b \<noteq> [] \<and> hd b = CHR ''/'' then b
      else if a = [] \<or> last a = CHR ''/'' then a @ b
      else a @ ''/'' @ b)"

definition digit_char :: "nat \<Rightarrow> char" where
  "digit_char d = ''0123456789'' ! d"

fun decimal :: "nat \<Rightarrow> string" where
  "decimal n = (if n < 10 then [digit_char n] else decimal (n div 10) @ [digit_char (n mod 10)])"

definition format_int :: "int \<Rightarrow> string" where
  "format_int k = (if 0 \<le> k then decimal (nat k) else CHR ''-'' # decimal (nat (- k)))"

section \<open>The calendar step\<close>

text \<open>
  Line 64, \<^verbatim>\<open>pd.date_range(start=f'{first_year}-01-01', end=f'{last_year}-12-01', freq='MS')\<close>.
  The two years are written into date strings, which pandas reads back, the start first.
  For a year from 1678 to 2261 the string is the ISO date of a four-digit year inside the
  range of a pandas timestamp, and pandas reads the date that is written. For any other
  year the string is read as \<open>read_timestamp\<close> says: pandas may raise, or read another
  date. The call has no guard on the order of the two years, and raises nothing for an
  empty range.
\<close>

definition to_timestamp :: "world \<Rightarrow> int \<Rightarrow> nat \<Rightarrow> string \<Rightarrow> error + date" where
  "to_timestamp w year month suffix =
     (if 1678 \<le> year \<and> year \<le> 2261 then Inr (year, month, 1)
      else read_timestamp w (format_int year @ suffix))"

definition build_calendar :: "world \<Rightarrow> int \<Rightarrow> int \<Rightarrow> error + date list" where
  "build_calendar w first_year last_year =
     (case to_timestamp w first_year 1 ''-01-01'' of
        Inl e \<Rightarrow> Inl e
      | Inr t0 \<Rightarrow>
          (case to_timestamp w last_year 12 ''-12-01'' of
             Inl e \<Rightarrow> Inl e
           | Inr t1 \<Rightarrow> Inr (date_range_MS t0 t1)))"

section \<open>Climate indexes\<close>

text \<open>
  Line 73, \<^verbatim>\<open>data[(data[0] == year)][month].values[0]\<close>: column \<open>0\<close> is compared with the
  year, the rows that match are kept, their column \<open>month\<close> is taken, and its first value
  is read. A column the frame does not have raises \<^verbatim>\<open>KeyError\<close>; reading the first of no
  values raises \<^verbatim>\<open>IndexError\<close>.
\<close>

definition column_exists :: "table \<Rightarrow> nat \<Rightarrow> bool" where
  "column_exists data c = (case data of [] \<Rightarrow> False | r # _ \<Rightarrow> c < length r)"

definition cell_at :: "cell list \<Rightarrow> nat \<Rightarrow> cell" where
  "cell_at r c = (if c < length r then r ! c else None)"

definition rows_of_year :: "table \<Rightarrow> int \<Rightarrow> table" where
  "rows_of_year data year = filter (\<lambda>r. cell_at r 0 = Some (of_int year)) data"

definition index_value :: "table \<Rightarrow> int \<Rightarrow> nat \<Rightarrow> error + cell" where
  "index_value data year month =
     (if \<not> column_exists data 0 then Inl KeyError
      else if \<not> column_exists data month then Inl KeyError
      else (case rows_of_year data year of
              [] \<Rightarrow> Inl IndexError
            | r # _ \<Rightarrow> Inr (cell_at r month)))"

text \<open>The loop of lines 69 to 73 over the rows of the calendar.\<close>

fun load_index_rows :: "table \<Rightarrow> date list \<Rightarrow> error + cell list" where
  "load_index_rows data [] = Inr []"
| "load_index_rows data ((year, month, day) # idx) =
     (case index_value data year month of
        Inl e \<Rightarrow> Inl e
      | Inr v \<Rightarrow>
          (case load_index_rows data idx of
             Inl e \<Rightarrow> Inl e
           | Inr vs \<Rightarrow> Inr (v # vs)))"

definition read_table :: "world \<Rightarrow> string \<Rightarrow> table step" where
  "read_table w filename =
     bind (open_file (index_tables w) filename)
       (\<lambda>data. lift (if data = [] then Inl EmptyDataError else Inr data))"

text \<open>
  The loop of lines 66 to 73 over the index variables. \<open>post\<close> is what is stored of a
  loaded series: the series itself in \<^verbatim>\<open>build_dataset\<close>, the residual of its decomposition
  in \<^verbatim>\<open>build_dataset_noTS\<close> (lines 166 and 167).
\<close>

fun load_indexes ::
  "world \<Rightarrow> (cell list \<Rightarrow> cell list) \<Rightarrow> string \<Rightarrow> date list \<Rightarrow> string list \<Rightarrow>
   (string \<times> cell list) list step" where
  "load_indexes w post indexes_path cal [] = lift (Inr [])"
| "load_indexes w post indexes_path cal (climate_index # rest) =
     bind (read_table w (path_join indexes_path (climate_index @ ''.txt'')))
       (\<lambda>data. bind (lift (load_index_rows data cal))
       (\<lambda>col. bind (load_indexes w post indexes_path cal rest)
       (\<lambda>cols. lift (Inr ((climate_index, post col) # cols)))))"


section \<open>Cluster features\<close>

text \<open>
  Lines 81 and 84, \<^verbatim>\<open>temp[temp.index.isin(date_range)]\<close>: the rows whose date is in the
  calendar.
\<close>

definition keep_rows :: "date list \<Rightarrow> date list \<Rightarrow> 'a list \<Rightarrow> 'a list" where
  "keep_rows cal idx vs = map snd (filter (\<lambda>(d, v). d \<in> set cal) (zip idx vs))"

definition filter_rows :: "frame \<Rightarrow> date list \<Rightarrow> frame" where
  "filter_rows f cal =
     \<lparr>index = keep_rows cal (index f) (index f),
      columns = map (\<lambda>(n, vs). (n, keep_rows cal (index f) vs)) (columns f)\<rparr>"

text \<open>
  \<^verbatim>\<open>pd.concat([a, b], axis=1)\<close>: the columns side by side, joined on the index. Frames with
  the same index keep it. Otherwise the index is the sorted union of the two, a date
  repeated as often as in the frame that repeats it most; a frame whose index is not that
  union is re-indexed on it, a cell with no source becoming NaN, and pandas refuses to
  re-index a frame whose own index repeats a date.
\<close>

definition reindex :: "frame \<Rightarrow> date list \<Rightarrow> (string \<times> cell list) list" where
  "reindex f idx =
     map (\<lambda>(n, vs). (n, map (\<lambda>d. case map_of (zip (index f) vs) d of
                                     None \<Rightarrow> None | Some v \<Rightarrow> v) idx)) (columns f)"

definition union_index :: "date list \<Rightarrow> date list \<Rightarrow> date list" where
  "union_index a b = sort (a @ fold remove1 a b)"

definition realign :: "frame \<Rightarrow> date list \<Rightarrow> error + (string \<times> cell list) list" where
  "realign f idx =
     (if index f = idx then Inr (columns f)
      else if distinct (index f) then Inr (reindex f idx)
      else Inl InvalidIndexError)"

definition concat_columns :: "frame \<Rightarrow> frame \<Rightarrow> error + frame" where
  "concat_columns a b =
     (if index a = index b then Inr \<lparr>index = index a, columns = columns a @ columns b\<rparr>
      else (let idx = union_index (index a) (index b)
            in case realign a idx of
                 Inl e \<Rightarrow> Inl e
               | Inr ca \<Rightarrow>
                   (case realign b idx of
                      Inl e \<Rightarrow> Inl e
                    | Inr cb \<Rightarrow> Inr \<lparr>index = idx, columns = ca @ cb\<rparr>)))"

text \<open>
  The loop of lines 76 to 85. \<open>dataset_cluster\<close> is \<open>None\<close> until the first variable has
  been read (\<^verbatim>\<open>v == 0\<close>).
\<close>

fun load_clusters ::
  "world \<Rightarrow> string \<Rightarrow> date list \<Rightarrow> string list \<Rightarrow> frame option \<Rightarrow> frame option step" where
  "load_clusters w cluster_path cal [] dataset_cluster = lift (Inr dataset_cluster)"
| "load_clusters w cluster_path cal (var # rest) dataset_cluster =
     bind (open_file (cluster_tables w) (path_join cluster_path (''averages_'' @ var @ ''.csv'')))
       (\<lambda>t. bind (lift (case dataset_cluster of
                          None \<Rightarrow> Inr (filter_rows t cal)
                        | Some dc \<Rightarrow> concat_columns dc (filter_rows t cal)))
       (\<lambda>dc. load_clusters w cluster_path cal rest (Some dc)))"

text \<open>Line 88; with no cluster variable the name \<open>dataset_cluster\<close> was never bound.\<close>

definition merge_dataset :: "frame option \<Rightarrow> frame \<Rightarrow> error + frame" where
  "merge_dataset dataset_cluster df_indeces =
     (case dataset_cluster of
        None \<Rightarrow> Inl (UnboundLocalError ''dataset_cluster'')
      | Some dc \<Rightarrow> concat_columns dc df_indeces)"

text \<open>Line 92: a column is replaced where the name exists and appended otherwise.\<close>

definition set_column :: "frame \<Rightarrow> string \<Rightarrow> cell list \<Rightarrow> frame" where
  "set_column f n vs =
     (if n \<in> fst ` set (columns f)
      then f\<lparr>columns := map (\<lambda>(k, c). if k = n then (k, vs) else (k, c)) (columns f)\<rparr>
      else f\<lparr>columns := columns f @ [(n, vs)]\<rparr>)"

definition add_month_col :: "bool \<Rightarrow> frame \<Rightarrow> frame" where
  "add_month_col month_col dataset =
     (if month_col
      then set_column dataset ''month'' (map (\<lambda>(y, m, d). Some (of_nat m)) (index dataset))
      else dataset)"

section \<open>The quality checks\<close>

text \<open>
  Lines 37 to 41. \<open>df\<close> is a series, its index beside its values. \<^verbatim>\<open>df.shift(1)\<close> moves
  every value one row down and starts with NaN; NaN equals nothing, itself included.
\<close>

definition shift1 :: "cell list \<Rightarrow> cell list" where
  "shift1 vs = (if vs = [] then [] else None # butlast vs)"

definition cell_eq :: "cell \<Rightarrow> cell \<Rightarrow> bool" where
  "cell_eq a b = (case (a, b) of (Some x, Some y) \<Rightarrow> x = y | _ \<Rightarrow> False)"

definition repeats_of :: "cell list \<Rightarrow> bool list" where
  "repeats_of vs = map (\<lambda>(p, v). cell_eq p v) (zip (shift1 vs) vs)"

definition check_consecutive_repeats ::
  "'i list \<times> cell list \<Rightarrow> string \<Rightarrow> 'i message list \<Rightarrow> 'i message list" where
  "check_consecutive_repeats df col out =
     (let repeats = repeats_of (snd df)
      in if length (filter id repeats) > 0
         then out @ [RepeatsFound col, RepeatsAt (map fst (filter snd (zip (fst df) repeats)))]
         else out)"

text \<open>
  Lines 99 to 101. The mean and the standard deviation (with \<open>n - 1\<close> in the denominator)
  skip NaN; fewer than two values have no standard deviation, and no comparison with NaN
  holds. The standard deviation is the root of the variance \<open>v\<close>, which is not negative,
  so \<open>|x| > mean + 7 * std\<close> is written without the root: \<open>|x| - mean\<close> is positive and its
  square exceeds \<open>49 * v\<close>.
\<close>

definition present :: "cell list \<Rightarrow> rat list" where
  "present vs = map the (filter (\<lambda>v. v \<noteq> None) vs)"

definition mean_of :: "rat list \<Rightarrow> rat" where
  "mean_of xs = sum_list xs / of_nat (length xs)"

definition variance_of :: "rat list \<Rightarrow> rat" where
  "variance_of xs = sum_list (map (\<lambda>x. (x - mean_of xs) * (x - mean_of xs)) xs) / of_nat (length xs - 1)"

definition above_threshold :: "cell list \<Rightarrow> bool" where
  "above_threshold vs =
     (let xs = present vs
      in if length xs < 2 then False
         else list_ex (\<lambda>x. 0 < \<bar>x\<bar> - mean_of xs \<and>
                 49 * variance_of xs < (\<bar>x\<bar> - mean_of xs) * (\<bar>x\<bar> - mean_of xs)) xs)"

text \<open>
  The loop of lines 95 to 102 over the column names. \<^verbatim>\<open>dataset[col]\<close> is a series when one
  column has the name, and the three checks print their warnings. When several columns
  share the name it is a data frame, the comparison of line 96 is a series of several
  truth values, and the \<^verbatim>\<open>if\<close> raises \<^verbatim>\<open>ValueError\<close>.
\<close>

fun audit ::
  "string list \<Rightarrow> date list \<Rightarrow> (string \<times> cell list) list \<Rightarrow> date message list \<Rightarrow>
   (error + unit) \<times> date message list" where
  "audit names idx [] out = (Inr (), out)"
| "audit names idx ((col, vs) # cols) out =
     (if length (filter (\<lambda>n. n = col) names) > 1
      then (Inl (ValueError ''The truth value of a Series is ambiguous''), out)
      else (let out1 = (if length (filter (\<lambda>v. v = None) vs) > 0
                        then out @ [MissingValues col] else out);
                out2 = check_consecutive_repeats (idx, vs) col out1;
                out3 = (if above_threshold vs then out2 @ [AboveThreshold col] else out2)
            in audit names idx cols out3))"

definition audit_dataset :: "frame \<Rightarrow> unit step" where
  "audit_dataset dataset s =
     (case audit (map fst (columns dataset)) (index dataset) (columns dataset) (printed s) of
        (r, out) \<Rightarrow> (r, s\<lparr>printed := out\<rparr>))"

section \<open>The target\<close>

text \<open>
  Line 106: the yearly files are opened in the order of the years and concatenated along
  time; \<^verbatim>\<open>xr.concat\<close> of no dataset raises \<^verbatim>\<open>ValueError\<close>.
\<close>

fun open_years :: "world \<Rightarrow> string \<Rightarrow> int list \<Rightarrow> (nat \<Rightarrow> nat \<Rightarrow> cell) list list step" where
  "open_years w target_path [] = lift (Inr [])"
| "open_years w target_path (year # years) =
     bind (open_file (target_files w) (target_path @ ''_'' @ format_int year @ ''.nc''))
       (\<lambda>ds. bind (open_years w target_path years)
       (\<lambda>dss. lift (Inr (ds # dss))))"

definition concat_time :: "world \<Rightarrow> (nat \<Rightarrow> nat \<Rightarrow> cell) list list \<Rightarrow> error + grid_field" where
  "concat_time w dss =
     (if dss = [] then Inl (ValueError ''must supply at least one object to concatenate'')
      else Inr \<lparr>latitude = target_latitude w, longitude = target_longitude w,
                tcg = map (\<lambda>stored ey ex. stored (snd ey) (snd ex)) (concat dss)\<rparr>)"

text \<open>
  Line 110, \<^verbatim>\<open>tcg_ds.where(mask == 1)\<close>. xarray first aligns the field and the mask on
  the labels of each axis: an axis whose labels are those of the mask stays; otherwise the
  entries whose label the mask has are kept, and xarray refuses to align an axis that
  repeats a label. Then a value stays where the mask is \<open>1\<close> at the labels of its grid
  point and becomes NaN elsewhere.
\<close>

definition align_axis :: "axis \<Rightarrow> coord list \<Rightarrow> error + axis" where
  "align_axis ax labels =
     (if map fst ax = labels then Inr ax
      else if distinct (map fst ax) \<and> distinct labels
        then Inr (filter (\<lambda>e. fst e \<in> set labels) ax)
      else Inl (ValueError ''cannot reindex or align along a dimension with duplicate labels''))"

definition masked :: "mask_array \<Rightarrow> slice \<Rightarrow> slice" where
  "masked m sl ey ex = (if mask_value m (fst ey) (fst ex) = 1 then sl ey ex else None)"

definition where_mask :: "grid_field \<Rightarrow> mask_array \<Rightarrow> error + grid_field" where
  "where_mask ds m =
     (case align_axis (latitude ds) (mask_latitude m) of
        Inl e \<Rightarrow> Inl e
      | Inr la \<Rightarrow>
          (case align_axis (longitude ds) (mask_longitude m) of
             Inl e \<Rightarrow> Inl e
           | Inr lo \<Rightarrow> Inr (ds\<lparr>latitude := la, longitude := lo,
                              tcg := map (masked m) (tcg ds)\<rparr>)))"

text \<open>Lines 107 to 114 (and 201 to 208): the branch on the basin.\<close>

definition target_field :: "world \<Rightarrow> string \<Rightarrow> box \<Rightarrow> grid_field \<Rightarrow> grid_field step" where
  "target_field w basin bx tcg_ds_or =
     (case bx of (min_lon, max_lon, min_lat, max_lat) \<Rightarrow>
        if basin = ''NEP'' \<or> basin = ''NA'' then
          bind (lift (crop_field tcg_ds_or min_lon max_lon min_lat max_lat))
            (\<lambda>tcg_ds. bind (open_file (mask_files w) (basin @ ''_mask.nc''))
            (\<lambda>mask_da. lift (where_mask tcg_ds mask_da)))
        else if basin \<noteq> ''GLB'' then
          lift (crop_field tcg_ds_or min_lon max_lon min_lat max_lat)
        else lift (Inr tcg_ds_or))"

text \<open>
  Lines 115 and 116: the sum over latitude and longitude of every time slice (NaN is
  skipped), truncated to an integer, becomes the column \<open>tcg\<close> of a frame on the calendar;
  pandas raises \<^verbatim>\<open>ValueError\<close> when the numbers of values and of rows differ.
\<close>

definition sum_slice :: "axis \<Rightarrow> axis \<Rightarrow> slice \<Rightarrow> rat" where
  "sum_slice lat lon sl =
     sum_list (map (\<lambda>ey. sum_list (map (\<lambda>ex.
        case sl ey ex of None \<Rightarrow> 0 | Some v \<Rightarrow> v) lon)) lat)"

definition astype_int :: "rat \<Rightarrow> int" where
  "astype_int x = (if 0 \<le> x then \<lfloor>x\<rfloor> else \<lceil>x\<rceil>)"

definition make_target :: "date list \<Rightarrow> grid_field \<Rightarrow> error + cell list" where
  "make_target cal tcg_ds =
     (let counts = map (\<lambda>sl. astype_int (sum_slice (latitude tcg_ds) (longitude tcg_ds) sl))
                     (tcg tcg_ds)
      in if length counts = length cal then Inr (map (\<lambda>c. Some (of_int c)) counts)
         else Inl (ValueError ''Length of values does not match length of index''))"

definition series_frame :: "date list \<Rightarrow> string \<Rightarrow> cell list \<Rightarrow> frame" where
  "series_frame idx name vs = \<lparr>index = idx, columns = [(name, vs)]\<rparr>"

section \<open>Decomposition and the two builders\<close>

text \<open>
  The difference of two series on the same index, value by value; NaN on either side gives
  NaN.
\<close>

definition cell_minus :: "cell \<Rightarrow> cell \<Rightarrow> cell" where
  "cell_minus a b = (case (a, b) of (Some x, Some y) \<Rightarrow> Some (x - y) | _ \<Rightarrow> None)"

definition series_minus :: "cell list \<Rightarrow> cell list \<Rightarrow> cell list" where
  "series_minus xs ys = map (\<lambda>(x, y). cell_minus x y) (zip xs ys)"

text \<open>
  What a builder returns: the pair of line 132, or one of the tuples of four frames of
  lines 124, 130 and 218.
\<close>

datatype result =
    Pair2 frame frame
  | Tuple4 frame frame frame frame

text \<open>Lines 119 to 132.\<close>

definition decompose_target ::
  "world \<Rightarrow> bool \<Rightarrow> bool \<Rightarrow> frame \<Rightarrow> date list \<Rightarrow> cell list \<Rightarrow> result" where
  "decompose_target w deseasonalize detrend dataset cal tcg_col =
     (let target = series_frame cal ''tcg'' tcg_col
      in if deseasonalize then
           (let decomposition = STL_fit w tcg_col
            in Tuple4 dataset target
                 (series_frame cal ''tcg'' (series_minus tcg_col (seasonal decomposition)))
                 (series_frame cal ''season'' (seasonal decomposition)))
         else if detrend then
           (let decomposition = STL_fit w tcg_col
            in Tuple4 dataset target
                 (series_frame cal ''tcg'' (series_minus tcg_col (trend decomposition)))
                 (series_frame cal ''trend'' (trend decomposition)))
         else Pair2 dataset target)"

text \<open>
  Lines 63 to 116, which the two builders share but for the series stored of an index:
  the calendar; the indexes, the clusters and the merged and checked dataset (lines 65 to
  102); the target (lines 105 to 116).
\<close>

definition build_features ::
  "world \<Rightarrow> (cell list \<Rightarrow> cell list) \<Rightarrow> string list \<Rightarrow> string list \<Rightarrow> string \<Rightarrow> string \<Rightarrow>
   date list \<Rightarrow> bool \<Rightarrow> frame step" where
  "build_features w post cluster_variables index_variables cluster_path indexes_path
     cal month_col =
     bind (load_indexes w post indexes_path cal index_variables)
       (\<lambda>index_cols. bind (load_clusters w cluster_path cal cluster_variables None)
       (\<lambda>dataset_cluster. bind (lift (merge_dataset dataset_cluster
                                        \<lparr>index = cal, columns = index_cols\<rparr>))
       (\<lambda>merged. bind (audit_dataset (add_month_col month_col merged))
       (\<lambda>_. lift (Inr (add_month_col month_col merged))))))"

definition build_target ::
  "world \<Rightarrow> string \<Rightarrow> box \<Rightarrow> string \<Rightarrow> int \<Rightarrow> int \<Rightarrow> date list \<Rightarrow> cell list step" where
  "build_target w basin bx target_path first_year last_year cal =
     bind (open_years w target_path [first_year .. last_year])
       (\<lambda>dss. bind (lift (concat_time w dss))
       (\<lambda>tcg_ds_or. bind (target_field w basin bx tcg_ds_or)
       (\<lambda>tcg_ds. lift (make_target cal tcg_ds))))"

definition assemble ::
  "world \<Rightarrow> (cell list \<Rightarrow> cell list) \<Rightarrow> string \<Rightarrow> box \<Rightarrow> string list \<Rightarrow> string list \<Rightarrow>
   string \<Rightarrow> string \<Rightarrow> string \<Rightarrow> int \<Rightarrow> int \<Rightarrow> bool \<Rightarrow> (frame \<times> date list \<times> cell list) step" where
  "assemble w post basin bx cluster_variables index_variables cluster_path indexes_path
     target_path first_year last_year month_col =
     bind (lift (build_calendar w first_year last_year))
       (\<lambda>cal. bind (build_features w post cluster_variables index_variables
                             cluster_path indexes_path cal month_col)
       (\<lambda>dataset. bind (build_target w basin bx target_path first_year last_year cal)
       (\<lambda>tcg_col. lift (Inr (dataset, cal, tcg_col)))))"

definition build_dataset ::
  "world \<Rightarrow> string \<Rightarrow> string list \<Rightarrow> string list \<Rightarrow> string \<Rightarrow> string \<Rightarrow> string \<Rightarrow>
   int \<Rightarrow> int \<Rightarrow> bool \<Rightarrow> bool \<Rightarrow> bool \<Rightarrow> result step" where
  "build_dataset w basin cluster_variables index_variables cluster_path indexes_path
     target_path first_year last_year deseasonalize detrend month_col =
     bind (lift (basin_box basin))
       (\<lambda>bx. bind (assemble w (\<lambda>col. col) basin bx cluster_variables index_variables
                     cluster_path indexes_path target_path first_year last_year month_col)
       (\<lambda>(dataset, date_range, tcg_col).
          lift (Inr (decompose_target w deseasonalize detrend dataset date_range tcg_col))))"

text \<open>Lines 134 to 218.\<close>

definition build_dataset_noTS ::
  "world \<Rightarrow> string \<Rightarrow> string list \<Rightarrow> string list \<Rightarrow> string \<Rightarrow> string \<Rightarrow> string \<Rightarrow>
   int \<Rightarrow> int \<Rightarrow> bool \<Rightarrow> result step" where
  "build_dataset_noTS w basin cluster_variables index_variables cluster_path indexes_path
     target_path first_year last_year month_col =
     bind (lift (basin_box basin))
       (\<lambda>bx. bind (assemble w (\<lambda>col. resid (STL_fit w col)) basin bx cluster_variables
                     index_variables cluster_path indexes_path target_path first_year
                     last_year month_col)
       (\<lambda>(dataset, date_range, tcg_col).
          (let decomposition = STL_fit w tcg_col
           in lift (Inr (Tuple4 dataset
                          (series_frame date_range ''resid'' (resid decomposition))
                          (series_frame date_range ''trend'' (trend decomposition))
                          (series_frame date_range ''season'' (seasonal decomposition)))))))"

section \<open>A small store for concrete runs\<close>

text \<open>
  A grid of seven latitudes and six longitudes, one index file and one cluster file for
  the year 2000, a target file of twelve monthly slices, and a mask for the basin NEP on
  the labels of the re-based crop. Of the date strings outside of the years 1678 to 2261,
  the runs below meet those of the years 99, 0 and 10000: pandas reads \<open>99\<close> as the year
  1999 and raises on the other two.
\<close>

definition ex_field :: grid_field where
  "ex_field =
     \<lparr>latitude = [(60, 0), (40, 1), (20, 2), (0, 3), (-20, 4), (-40, 5), (-60, 6)],
      longitude = [(-180, 0), (-75, 1), (0, 2), (50, 3), (120, 4), (150, 5)],
      tcg = []\<rparr>"

definition ex_world :: world where
  "ex_world =
     \<lparr>index_tables = (\<lambda>p. if p = ''ix/nino.txt''
         then Some [map Some [2000, 1, 2, 3, 4, 5, 6, 7, 8, 9, 10, 11, 12]] else None),
      cluster_tables = (\<lambda>p. if p = ''cl/averages_sst.csv''
         then Some \<lparr>index = map (\<lambda>m. (2000, m, 1)) [1 ..< 13] @ [(2001, 1, 1)],
                    columns = [(''cluster1'',
                      map Some [5, 5, 6, 7, 8, 9, 10, 11, 12, 13, 14, 15, 16])]\<rparr>
         else None),
      target_latitude = latitude ex_field,
      target_longitude = longitude ex_field,
      target_files = (\<lambda>p. if p = ''tcg_2000.nc''
         then Some (replicate 12 (\<lambda>i j. if i = j then None else Some (1 / 2))) else None),
      mask_files = (\<lambda>p. if p = ''NEP_mask.nc''
         then Some \<lparr>mask_latitude = [60, 40, 20, 0, -20, -40, -60],
                    mask_longitude = [180, 285],
                    mask_value = (\<lambda>y x. if y \<le> 20 then 1 else 0)\<rparr>
         else None),
      STL_fit = (\<lambda>col. \<lparr>trend = col, seasonal = map (\<lambda>v. Some 1) col,
                          resid = map (\<lambda>v. Some (-1)) col\<rparr>),
      read_timestamp = (\<lambda>str. if str = ''99-01-01'' then Inr (1999, 1, 1)
                               else if str = ''99-12-01'' then Inr (1999, 12, 1)
                               else Inl DateParseError)\<rparr>"


text \<open>The same store with a cluster file whose column has the name of the index.\<close>

definition ex_world_same_name :: world where
  "ex_world_same_name =
     ex_world\<lparr>cluster_tables := (\<lambda>p. if p = ''cl/averages_sst.csv''
         then Some \<lparr>index = map (\<lambda>m. (2000, m, 1)) [1 ..< 13],
                    columns = [(''nino'', map Some [5, 6, 7, 8, 9, 10, 11, 12, 13, 14, 15, 16])]\<rparr>
         else None)\<rparr>"


definition ex_field_south_first :: grid_field where
  "ex_field_south_first =
     \<lparr>latitude = [(-40, 0), (-20, 1), (0, 2), (20, 3)],
      longitude = [(-75, 0), (50, 1)],
      tcg = []\<rparr>"


definition ex_io :: io where
  "ex_io = \<lparr>opened = [], printed = []\<rparr>"

section \<open>Slicing a sorted axis\<close>

lemma take_upto_sorted:
  "sorted (map f ps) \<Longrightarrow>
   take (length (takeWhile (\<lambda>x. x \<le> b) (map f ps))) ps = filter (\<lambda>p. f p \<le> (b::rat)) ps"
proof (induction ps)
  case Nil
  then show ?case by simp
next
  case (Cons p ps)
  then have s: "sorted (map f ps)" and le: "\<forall>q\<in>set ps. f p \<le> f q" by auto
  show ?case
  proof (cases "f p \<le> b")
    case True
    with Cons.IH[OF s] show ?thesis by simp
  next
    case False
    with le have "filter (\<lambda>p. f p \<le> b) ps = []" by (auto simp: filter_empty_conv)
    with False show ?thesis by simp
  qed
qed

lemma slice_sorted:
  "sorted (map f ax) \<Longrightarrow>
   take (length (takeWhile (\<lambda>x. x \<le> b) (map f ax)) - length (takeWhile (\<lambda>x. x < a) (map f ax)))
        (drop (length (takeWhile (\<lambda>x. x < a) (map f ax))) ax)
   = filter (\<lambda>p. a \<le> f p \<and> f p \<le> (b::rat)) ax"
proof (induction ax)
  case Nil
  then show ?case by simp
next
  case (Cons p ps)
  then have s: "sorted (map f ps)" and le: "\<forall>q\<in>set ps. f p \<le> f q" by auto
  show ?case
  proof (cases "f p < a")
    case True
    show ?thesis
    proof (cases "f p \<le> b")
      case True
      with \<open>f p < a\<close> Cons.IH[OF s] show ?thesis by simp
    next
      case False
      with le have "filter (\<lambda>p. a \<le> f p \<and> f p \<le> b) ps = []" by (auto simp: filter_empty_conv)
      with False \<open>f p < a\<close> show ?thesis by simp
    qed
  next
    case False
    from le False have all: "\<forall>q\<in>set ps. a \<le> f q" by auto
    show ?thesis
    proof (cases "f p \<le> b")
      case True
      have "take (length (takeWhile (\<lambda>x. x \<le> b) (map f ps))) ps = filter (\<lambda>p. f p \<le> b) ps"
        using s by (rule take_upto_sorted)
      also have "\<dots> = filter (\<lambda>p. a \<le> f p \<and> f p \<le> b) ps"
        using all by (auto intro: filter_cong)
      finally show ?thesis using True False by simp
    next
      case False
      with le have "filter (\<lambda>p. a \<le> f p \<and> f p \<le> b) ps = []" by (auto simp: filter_empty_conv)
      with False \<open>\<not> f p < a\<close> show ?thesis by simp
    qed
  qed
qed

lemma sel_slice_increasing:
  assumes "sorted (map fst ax)"
  shows "sel_slice ax a b = Inr (filter (\<lambda>p. a \<le> fst p \<and> fst p \<le> b) ax)"
  using slice_sorted[OF assms, of b a] assms
  by (simp add: sel_slice_def get_slice_bound_def searchsorted_def)

lemma sel_slice_decreasing:
  assumes d: "sorted (rev (map fst ax))" and n: "\<not> sorted (map fst ax)"
  shows "sel_slice ax a b = Inr (filter (\<lambda>p. b \<le> fst p \<and> fst p \<le> a) ax)"
proof -
  let ?r = "rev ax"
  let ?s' = "length (takeWhile (\<lambda>x. x \<le> a) (map fst ?r))"
  let ?t' = "length (takeWhile (\<lambda>x. x < b) (map fst ?r))"
  let ?n = "length ax"
  have sr: "sorted (map fst ?r)" using d by (simp add: rev_map)
  have s'n: "?s' \<le> ?n" using length_takeWhile_le[of _ "map fst ?r"] by simp
  have t'n: "?t' \<le> ?n" using length_takeWhile_le[of _ "map fst ?r"] by simp
  have sel: "sel_slice ax a b = Inr (take ((?n - ?t') - (?n - ?s')) (drop (?n - ?s') ax))"
    using d n by (simp add: sel_slice_def get_slice_bound_def searchsorted_def flip_side_def rev_map)
  have "rev (take ((?n - ?t') - (?n - ?s')) (drop (?n - ?s') ax))
        = take (?s' - ?t') (drop ?t' ?r)"
    using s'n t'n by (cases "?t' \<le> ?s'") (simp_all add: rev_take rev_drop drop_take)
  also have "\<dots> = filter (\<lambda>p. b \<le> fst p \<and> fst p \<le> a) ?r"
    using slice_sorted[OF sr, of a b] by simp
  finally have "rev (rev (take ((?n - ?t') - (?n - ?s')) (drop (?n - ?s') ax)))
        = rev (filter (\<lambda>p. b \<le> fst p \<and> fst p \<le> a) ?r)"
    by (rule arg_cong)
  then show ?thesis using sel by (simp add: rev_filter)
qed

lemma pymod_rebase:
  assumes "-180 \<le> x" and "x \<le> 180"
  shows "pymod (x + 360) 360 = (if x < 0 then x + 360 else x)"
proof (cases "x < 0")
  case True
  have "\<lfloor>(x + 360) / 360\<rfloor> = 0"
    using assms True by (intro floor_unique) simp_all
  then show ?thesis using True by (simp add: pymod_def)
next
  case False
  have "\<lfloor>(x + 360) / 360\<rfloor> = 1"
    using assms False by (intro floor_unique) simp_all
  then show ?thesis using False by (simp add: pymod_def)
qed

lemma rebased_in_NWP:
  assumes "-180 \<le> x" and "x \<le> 180"
  shows "100 \<le> pymod (x + 360) 360 \<and> pymod (x + 360) 360 \<le> 180 \<longleftrightarrow> 100 \<le> x \<or> x = -180"
  using assms by (auto simp: pymod_rebase)

section \<open>Cropping to a basin\<close>

lemma pymod_360_range: "0 \<le> pymod x 360 \<and> pymod x 360 < 360"
proof -
  have "of_int \<lfloor>x / 360\<rfloor> \<le> x / 360" "x / 360 < of_int \<lfloor>x / 360\<rfloor> + 1"
    by linarith+
  then show ?thesis by (simp add: pymod_def field_simps)
qed

lemma sorted_rebase: "sorted (map fst (rebase_longitude ax))"
  by (simp add: rebase_longitude_def)

lemma set_rebase:
  "set (rebase_longitude ax) = (\<lambda>(x, j). (pymod (x + 360) 360, j)) ` set ax"
  by (simp add: rebase_longitude_def)

lemma pymod_m75: "pymod (-75 + 360) 360 = 285"
  by code_simp

lemma pymod_50: "pymod (50 + 360) 360 = 50"
  by code_simp

lemma crop_field_crossing:
  assumes c: "crosses_180 lon1 lon2" and ns: "north_to_south (latitude var)"
  shows "crop_field var lon1 lon2 lat1 lat2 =
     Inr (var\<lparr>longitude :=
                 filter (\<lambda>p. (if lon1 < 0 then lon1 + 360 else lon1) \<le> fst p \<and>
                              fst p \<le> (if lon2 < 0 then lon2 + 360 else lon2))
                   (rebase_longitude (longitude var)),
              latitude := filter (\<lambda>p. lat1 \<le> fst p \<and> fst p \<le> lat2) (latitude var)\<rparr>)"
proof -
  have lo: "sel_slice (rebase_longitude (longitude var)) a b =
      Inr (filter (\<lambda>p. a \<le> fst p \<and> fst p \<le> b) (rebase_longitude (longitude var)))" for a b
    by (rule sel_slice_increasing) (rule sorted_rebase)
  have la: "sel_slice (latitude var) lat2 lat1 =
      Inr (filter (\<lambda>p. lat1 \<le> fst p \<and> fst p \<le> lat2) (latitude var))"
    using ns by (intro sel_slice_decreasing) (simp_all add: north_to_south_def)
  show ?thesis
    using c by (simp add: crop_field_def Let_def lo la)
qed

text \<open>
  Claim C1, as the source has it. The eastern bound of the NWP box is \<open>180\<close>, so the
  condition of line 28 holds and the longitudes are re-based before the selection. On a
  field whose latitudes run from north to south, cropping to \<open>(100, 180, 0, 40)\<close> returns
  the rows with a latitude in \<open>[0, 40]\<close> and the columns whose re-based longitude lies in
  \<open>[100, 180]\<close>. For a longitude label \<open>x\<close> in \<open>[-180, 180]\<close> these are the labels in
  \<open>[100, 180]\<close> and the label \<open>-180\<close>, which is re-based to \<open>180\<close>.
\<close>

theorem crop_field_NWP:
  assumes "north_to_south (latitude var)"
  shows "crosses_180 100 180 \<and>
     crop_field var 100 180 0 40 =
       Inr (var\<lparr>longitude :=
                   filter (\<lambda>p. 100 \<le> fst p \<and> fst p \<le> 180) (rebase_longitude (longitude var)),
                latitude := filter (\<lambda>p. 0 \<le> fst p \<and> fst p \<le> 40) (latitude var)\<rparr>) \<and>
     set (rebase_longitude (longitude var)) =
       (\<lambda>(x, j). (pymod (x + 360) 360, j)) ` set (longitude var) \<and>
     (\<forall>x. -180 \<le> x \<and> x \<le> 180 \<longrightarrow>
        (100 \<le> pymod (x + 360) 360 \<and> pymod (x + 360) 360 \<le> 180 \<longleftrightarrow> 100 \<le> x \<or> x = -180))"
proof -
  have c: "crosses_180 100 180" by (simp add: crosses_180_def)
  have "crop_field var 100 180 0 40 =
       Inr (var\<lparr>longitude :=
                   filter (\<lambda>p. 100 \<le> fst p \<and> fst p \<le> 180) (rebase_longitude (longitude var)),
                latitude := filter (\<lambda>p. 0 \<le> fst p \<and> fst p \<le> 40) (latitude var)\<rparr>)"
    using crop_field_crossing[OF c assms, of 0 40] by simp
  with c set_rebase rebased_in_NWP show ?thesis by blast
qed

lemma ns_ex: "north_to_south (latitude ex_field)"
  by (simp add: north_to_south_def ex_field_def)

lemma rebase_ex:
  "rebase_longitude (longitude ex_field) =
     [(0, 2), (50, 3), (120, 4), (150, 5), (180, 0), (285, 1)]"
  by code_simp

theorem crop_field_NWP_witness:
  "north_to_south (latitude ex_field) \<and> crosses_180 100 180 \<and>
   crop_field ex_field 100 180 0 40 =
     Inr \<lparr>latitude = [(40, 1), (20, 2), (0, 3)], longitude = [(120, 4), (150, 5), (180, 0)],
          tcg = []\<rparr>"
  using crop_field_NWP[OF ns_ex, THEN conjunct1]
    crop_field_NWP[OF ns_ex, THEN conjunct2, THEN conjunct1] ns_ex
  by (simp add: rebase_ex) (simp add: ex_field_def)

text \<open>
  The claim as it was stated fails on a grid that starts at \<open>-180\<close>: the conversion is
  triggered, and the column stored at position \<open>0\<close>, whose longitude \<open>-180\<close> is not in
  \<open>[100, 180]\<close>, is returned with the label \<open>180\<close>.
\<close>

theorem crop_field_NWP_counterexample:
  "crosses_180 100 180 \<and>
   map_sum id (\<lambda>ds. (latitude ds, longitude ds))
     (crop_field \<lparr>latitude = [(60, 0), (40, 1), (20, 2), (0, 3), (-20, 4)],
               longitude = [(-180, 0), (-90, 1), (0, 2), (90, 3), (120, 4)], tcg = []\<rparr> 100 180 0 40) =
     Inr ([(40, 1), (20, 2), (0, 3)], [(120, 4), (180, 0)])"
  by code_simp

text \<open>
  Claim C2, as the source has it. The SP box \<open>(135, -70, -40, 0)\<close> satisfies the condition
  of line 28; the longitudes are re-based to \<open>[0, 360)\<close> and the eastern bound becomes
  \<open>290\<close>. On a field whose latitudes run from north to south, the column at longitude
  \<open>-75\<close> is returned with the label \<open>285\<close>, together with every row whose latitude lies in
  \<open>[-40, 0]\<close>, and the column at longitude \<open>50\<close> is not returned.
\<close>

theorem crop_field_SP:
  assumes ns: "north_to_south (latitude var)"
    and w: "(-75, j) \<in> set (longitude var)" and e: "(50, k) \<in> set (longitude var)"
  shows "crosses_180 135 (-70) \<and>
     (\<exists>ds. crop_field var 135 (-70) (-40) 0 = Inr ds \<and>
        longitude ds =
          filter (\<lambda>p. 135 \<le> fst p \<and> fst p \<le> 290) (rebase_longitude (longitude var)) \<and>
        latitude ds = filter (\<lambda>p. -40 \<le> fst p \<and> fst p \<le> 0) (latitude var) \<and>
        (285, j) \<in> set (longitude ds) \<and>
        (50, k) \<in> set (rebase_longitude (longitude var)) \<and>
        (50, k) \<notin> set (longitude ds) \<and>
        50 \<notin> fst ` set (longitude ds))"
proof -
  have c: "crosses_180 135 (-70)" by (simp add: crosses_180_def)
  have w': "(285, j) \<in> set (rebase_longitude (longitude var))"
    unfolding set_rebase using w pymod_m75 by force
  have e': "(50, k) \<in> set (rebase_longitude (longitude var))"
    unfolding set_rebase using e pymod_50 by force
  show ?thesis using crop_field_crossing[OF c ns, of "-40" 0] c w' e'
    by auto
qed

theorem crop_field_SP_witness:
  "north_to_south (latitude ex_field) \<and> (-75, 1) \<in> set (longitude ex_field) \<and>
   (50, 3) \<in> set (longitude ex_field) \<and>
   crop_field ex_field 135 (-70) (-40) 0 =
     Inr \<lparr>latitude = [(0, 3), (-20, 4), (-40, 5)], longitude = [(150, 5), (180, 0), (285, 1)], tcg = []\<rparr>"
proof -
  have w: "(-75, 1) \<in> set (longitude ex_field)" and e: "(50, 3) \<in> set (longitude ex_field)"
    by (simp_all add: ex_field_def)
  from crop_field_SP[OF ns_ex w e] obtain ds where
    "crop_field ex_field 135 (-70) (-40) 0 = Inr ds"
    "longitude ds = filter (\<lambda>p. 135 \<le> fst p \<and> fst p \<le> 290) (rebase_longitude (longitude ex_field))"
    "latitude ds = filter (\<lambda>p. -40 \<le> fst p \<and> fst p \<le> 0) (latitude ex_field)"
    by blast
  moreover have "crop_field ex_field 135 (-70) (-40) 0 =
     Inr \<lparr>latitude = [(0, 3), (-20, 4), (-40, 5)], longitude = [(150, 5), (180, 0), (285, 1)], tcg = []\<rparr>"
    using crop_field_crossing[OF _ ns_ex, of 135 "-70" "-40" 0]
    by (simp add: crosses_180_def rebase_ex) (simp add: ex_field_def)
  ultimately show ?thesis using ns_ex w e by simp
qed

text \<open>
  The claim as it was stated, for every field with the two longitudes, fails on a field
  whose latitudes are stored from south to north: line 35 slices from the northern to the
  southern bound, which selects no row there, so that the point at longitude \<open>-75\<close> and
  latitude \<open>-20\<close> is not returned.
\<close>

theorem crop_field_SP_counterexample:
  "(-75, 0) \<in> set (longitude ex_field_south_first) \<and>
   (50, 1) \<in> set (longitude ex_field_south_first) \<and>
   (-20, 1) \<in> set (latitude ex_field_south_first) \<and>
   map_sum id (\<lambda>ds. (latitude ds, longitude ds))
     (crop_field ex_field_south_first 135 (-70) (-40) 0) = Inr ([], [(285, 0)])"
  by code_simp


section \<open>The calendar of a range of years\<close>

lemma divmod12: "0 \<le> r \<Longrightarrow> r < 12 \<Longrightarrow> (12 * y + r) div 12 = (y::int) \<and> (12 * y + r) mod 12 = r"
  by presburger

lemma month_starts_upto:
  "1 \<le> snd s \<Longrightarrow> snd s \<le> 12 \<Longrightarrow> 1 \<le> snd e \<Longrightarrow> snd e \<le> 12 \<Longrightarrow>
   month_starts s e =
     map (\<lambda>k. (k div 12, nat (k mod 12) + 1, 1))
       [12 * fst s + (int (snd s) - 1) .. 12 * fst e + (int (snd e) - 1)]"
proof (induction s e rule: month_starts.induct)
  case (1 y m ey em)
  let ?D = "\<lambda>k::int. (k div 12, nat (k mod 12) + 1, 1::nat)"
  from 1 have m: "1 \<le> m" "m \<le> 12" and em: "1 \<le> em" "em \<le> 12" by simp_all
  show ?case
  proof (cases "y < ey \<or> (y = ey \<and> m \<le> em)")
    case True
    then have le: "12 * y + (int m - 1) \<le> 12 * ey + (int em - 1)" using m em by auto
    have hd: "?D (12 * y + (int m - 1)) = (y, m, 1)"
    proof -
      have "0 \<le> int m - 1" "int m - 1 < 12" using m by auto
      then have "(12 * y + (int m - 1)) div 12 = y" "(12 * y + (int m - 1)) mod 12 = int m - 1"
        using divmod12[of "int m - 1" y] by simp_all
      then show ?thesis using m by simp
    qed
    let ?n = "if 12 \<le> m then (y + 1, 1) else (y, m + 1)"
    have n: "1 \<le> snd ?n" "snd ?n \<le> 12" "12 * fst ?n + (int (snd ?n) - 1) = 12 * y + (int m - 1) + 1"
      using m by auto
    have "month_starts ?n (ey, em) = map ?D [12 * y + (int m - 1) + 1 .. 12 * ey + (int em - 1)]"
      using "1.IH"[OF True n(1) n(2)] em n(3) by simp
    then show ?thesis using True le hd
      by (subst month_starts.simps) (simp add: upto_rec1[OF le])
  next
    case False
    then have "\<not> 12 * y + (int m - 1) \<le> 12 * ey + (int em - 1)" using m em by auto
    then show ?thesis using False by (subst month_starts.simps) simp
  qed
qed

lemma date_range_upto:
  "date_range fy ly = map (\<lambda>k. (k div 12, nat (k mod 12) + 1, 1)) [12 * fy .. 12 * ly + 11]"
  using month_starts_upto[of "(fy, 1)" "(ly, 12)"] by (simp add: date_range_def)

lemma date_of_mono:
  "(i::int) < j \<Longrightarrow> (i div 12, nat (i mod 12) + 1, 1::nat) < (j div 12, nat (j mod 12) + 1, 1)"
proof -
  assume ij: "i < j"
  have "i div 12 \<le> j div 12" using ij by (simp add: zdiv_mono1)
  moreover have "i div 12 = j div 12 \<Longrightarrow> i mod 12 < j mod 12"
  proof -
    assume e: "i div 12 = j div 12"
    have "i = 12 * (i div 12) + i mod 12" "j = 12 * (j div 12) + j mod 12" by simp_all
    with e ij show ?thesis by linarith
  qed
  ultimately have "i div 12 < j div 12 \<or> (i div 12 = j div 12 \<and> nat (i mod 12) < nat (j mod 12))"
    by (auto simp: nat_less_eq_zless)
  then show ?thesis by (auto simp: less_prod_def less_le)
qed

lemma sorted_wrt_upto: "sorted_wrt (<) [i..j]"
  by (simp add: sorted_wrt_iff_nth_less)

lemma date_range_increasing: "sorted_wrt (<) (date_range fy ly)"
  unfolding date_range_upto sorted_wrt_map
  by (rule sorted_wrt_mono_rel[OF _ sorted_wrt_upto]) (rule date_of_mono)

lemma date_range_length: "fy \<le> ly \<Longrightarrow> length (date_range fy ly) = nat (12 * (ly - fy + 1))"
  by (simp add: date_range_upto) 

lemma date_range_hd: "fy \<le> ly \<Longrightarrow> hd (date_range fy ly) = (fy, 1, 1)"
proof -
  assume "fy \<le> ly"
  then have "12 * fy \<le> 12 * ly + 11" by simp
  then show ?thesis by (simp add: date_range_upto upto_rec1 hd_map)
qed

lemma date_range_last: "fy \<le> ly \<Longrightarrow> last (date_range fy ly) = (ly, 12, 1)"
proof -
  assume "fy \<le> ly"
  then have le: "12 * fy \<le> 12 * ly + 11" by simp
  have "(12 * ly + 11) div 12 = ly" "(12 * ly + 11) mod 12 = 11" by simp_all
  then show ?thesis using le by (simp add: date_range_upto upto_rec2 last_map)
qed

lemma date_range_set:
  "set (date_range fy ly) = {(y, m, 1) | y m. fy \<le> y \<and> y \<le> ly \<and> 1 \<le> m \<and> m \<le> 12}"
proof (rule set_eqI, rule iffI)
  fix d :: date assume "d \<in> set (date_range fy ly)"
  then obtain k where k: "12 * fy \<le> k" "k \<le> 12 * ly + 11" and d: "d = (k div 12, nat (k mod 12) + 1, 1)"
    by (auto simp: date_range_upto)
  have "fy \<le> k div 12" "k div 12 \<le> ly" using k by presburger+
  moreover have "0 \<le> k mod 12" "k mod 12 < 12" by simp_all
  then have "1 \<le> nat (k mod 12) + 1" "nat (k mod 12) + 1 \<le> 12" by simp_all
  ultimately show "d \<in> {(y, m, 1) | y m. fy \<le> y \<and> y \<le> ly \<and> 1 \<le> m \<and> m \<le> 12}"
    using d by blast
next
  fix d :: date assume "d \<in> {(y, m, 1) | y m. fy \<le> y \<and> y \<le> ly \<and> 1 \<le> m \<and> m \<le> 12}"
  then obtain y and m :: nat where d: "d = (y, m, 1)" and r: "fy \<le> y" "y \<le> ly" "1 \<le> m" "m \<le> 12" by blast
  let ?k = "12 * y + (int m - 1)"
  have "0 \<le> int m - 1" "int m - 1 < 12" using r by auto
  then have "?k div 12 = y" "?k mod 12 = int m - 1"
    using divmod12[of "int m - 1" y] by simp_all
  then have "(?k div 12, nat (?k mod 12) + 1, 1::nat) = d" using d r by simp
  moreover have "12 * fy \<le> ?k" "?k \<le> 12 * ly + 11" using r by auto
  ultimately show "d \<in> set (date_range fy ly)"
    unfolding date_range_upto by (metis (no_types, lifting) atLeastAtMost_iff image_eqI set_map set_upto)
qed

lemma date_range_empty: "ly < fy \<Longrightarrow> date_range fy ly = []"
  by (simp add: date_range_upto)



lemma build_calendar_in_range:
  assumes "1678 \<le> first_year" "first_year \<le> 2261" "1678 \<le> last_year" "last_year \<le> 2261"
  shows "build_calendar w first_year last_year = Inr (date_range first_year last_year)"
  using assms by (simp add: build_calendar_def to_timestamp_def date_range_MS_def date_range_def)


text \<open>
  Claim C3, as the source has it. Line 64 checks nothing: for two years from 1678 to 2261,
  whose date strings pandas reads as they are written, with \<open>last_year < first_year\<close>, the
  calendar step raises no error and returns the empty calendar.
\<close>

theorem empty_range_gives_empty_calendar:
  assumes "1678 \<le> last_year" and "last_year < first_year" and "first_year \<le> 2261"
  shows "build_calendar w first_year last_year = Inr []"
proof -
  have "build_calendar w first_year last_year = Inr (date_range first_year last_year)"
    using assms by (intro build_calendar_in_range) simp_all
  then show ?thesis using assms by (simp add: date_range_empty)
qed

theorem empty_range_gives_empty_calendar_witness:
  "(1678::int) \<le> 1999 \<and> (1999::int) < 2005 \<and> (2005::int) \<le> 2261 \<and>
   build_calendar ex_world 2005 1999 = Inr []"
  using empty_range_gives_empty_calendar[of 1999 2005 ex_world] by simp

text \<open>
  The claim as it was stated fails for the years 2001 and 2000: the calendar is empty, the
  run goes on to read the index and the cluster files, and it stops only at line 106,
  where there is no yearly file to concatenate.
\<close>

theorem invalid_range_counterexample:
  "build_calendar ex_world 2001 2000 = Inr [] \<and>
   build_dataset ex_world ''NWP'' [''sst''] [''nino''] ''cl'' ''ix'' ''tcg'' 2001 2000 False False True ex_io
     = (Inl (ValueError ''must supply at least one object to concatenate''),
        \<lparr>opened = [''ix/nino.txt'', ''cl/averages_sst.csv''], printed = []\<rparr>)"
  by code_simp

text \<open>
  Claim C4, as the source has it. For two years from 1678 to 2261, whose date strings
  pandas reads as they are written, with \<open>first_year \<le> last_year\<close>, the calendar has
  \<open>12 * (last_year - first_year + 1)\<close> entries, it is strictly increasing, its entries are
  exactly the first days of the months of the years from \<open>first_year\<close> to \<open>last_year\<close>, it
  starts with January of \<open>first_year\<close> and it ends with December of \<open>last_year\<close>.
\<close>

theorem calendar_shape:
  assumes "1678 \<le> first_year" and "first_year \<le> last_year" and "last_year \<le> 2261"
  shows "\<exists>cal. build_calendar w first_year last_year = Inr cal \<and>
     length cal = nat (12 * (last_year - first_year + 1)) \<and>
     sorted_wrt (<) cal \<and>
     set cal = {(y, m, 1) | y m. first_year \<le> y \<and> y \<le> last_year \<and> 1 \<le> m \<and> m \<le> 12} \<and>
     hd cal = (first_year, 1, 1) \<and>
     last cal = (last_year, 12, 1)"
proof -
  have "build_calendar w first_year last_year = Inr (date_range first_year last_year)"
    using assms by (intro build_calendar_in_range) simp_all
  then show ?thesis using assms(2)
    by (simp add: date_range_length date_range_increasing date_range_set
        date_range_hd date_range_last)
qed

theorem calendar_shape_witness:
  "(1678::int) \<le> 2000 \<and> (2000::int) \<le> 2001 \<and> (2001::int) \<le> 2261 \<and>
   (\<exists>cal. build_calendar ex_world 2000 2001 = Inr cal \<and> length cal = 24 \<and> sorted_wrt (<) cal \<and>
      set cal = {(y, m, 1) | y m. 2000 \<le> y \<and> y \<le> 2001 \<and> 1 \<le> m \<and> m \<le> 12} \<and>
      hd cal = (2000, 1, 1) \<and> last cal = (2001, 12, 1))"
  using calendar_shape[of 2000 2001 ex_world] by simp

text \<open>
  The claim as it was stated, for every pair of integers, fails outside of the years that
  pandas reads as they are written: the date strings of the year 0 are not read and line
  64 raises, and those of the year 99 are read as dates of 1999, so that the calendar of
  the years 99 to 99 is the calendar of 1999.
\<close>

theorem calendar_shape_counterexample:
  "build_calendar ex_world 0 0 = Inl DateParseError \<and>
   build_calendar ex_world 99 99 = Inr (date_range 1999 1999) \<and>
   hd (date_range 1999 1999) = (1999, 1, 1)"
  by code_simp

section \<open>Failures of a run\<close>

lemma bind_InrE:
  assumes "bind m f s = (Inr r, s')"
  obtains x s1 where "m s = (Inr x, s1)" and "f x s1 = (Inr r, s')"
  using assms unfolding bind_def by (auto split: prod.splits sum.splits)

lemma lift_Inr [simp]: "lift r s = (Inr x, s') \<longleftrightarrow> r = Inr x \<and> s' = s"
  by (auto simp: lift_def)

lemma basin_box_unknown:
  "basin \<notin> {''NWP'', ''NEP'', ''NA'', ''NI'', ''SP'', ''SI'', ''GLB''} \<Longrightarrow>
   basin_box basin = Inl (ValueError ''Basin not recognized'')"
  by (simp add: basin_box_def)

text \<open>
  Claim C5. For a basin identifier that is none of the seven, both builders raise
  \<^verbatim>\<open>ValueError('Basin not recognized')\<close> with no file opened and nothing printed.
\<close>

theorem unknown_basin_raises_first:
  assumes "basin \<notin> {''NWP'', ''NEP'', ''NA'', ''NI'', ''SP'', ''SI'', ''GLB''}"
  shows "build_dataset w basin cluster_variables index_variables cluster_path indexes_path
           target_path first_year last_year deseasonalize detrend month_col s
         = (Inl (ValueError ''Basin not recognized''), s) \<and>
         build_dataset_noTS w basin cluster_variables index_variables cluster_path indexes_path
           target_path first_year last_year month_col s
         = (Inl (ValueError ''Basin not recognized''), s)"
  using basin_box_unknown[OF assms]
  by (simp add: build_dataset_def build_dataset_noTS_def bind_def lift_def)

theorem unknown_basin_raises_first_witness:
  "''XX'' \<notin> {''NWP'', ''NEP'', ''NA'', ''NI'', ''SP'', ''SI'', ''GLB''} \<and>
   build_dataset ex_world ''XX'' [''sst''] [''nino''] ''cl'' ''ix'' ''tcg'' 2000 2000 False False True ex_io
     = (Inl (ValueError ''Basin not recognized''), ex_io) \<and>
   build_dataset_noTS ex_world ''XX'' [''sst''] [''nino''] ''cl'' ''ix'' ''tcg'' 2000 2000 True ex_io
     = (Inl (ValueError ''Basin not recognized''), ex_io)"
proof -
  have h: "''XX'' \<notin> {''NWP'', ''NEP'', ''NA'', ''NI'', ''SP'', ''SI'', ''GLB''}" by simp
  show ?thesis by (rule conjI[OF h unknown_basin_raises_first[OF h]])
qed









section \<open>The repeat check\<close>

lemma repeats_example:
  "repeats_of [Some 1, Some 1, Some 2, Some 3] = [False, True, False, False]"
  by (simp add: repeats_of_def shift1_def cell_eq_def)

lemma length_repeats: "length (repeats_of vs) = length vs"
  by (simp add: repeats_of_def shift1_def)

lemma repeats_nth:
  "i < length vs \<Longrightarrow> repeats_of vs ! i \<longleftrightarrow> 0 < i \<and> cell_eq (vs ! (i - 1)) (vs ! i)"
proof -
  assume i: "i < length vs"
  then have ne: "vs \<noteq> []" by auto
  have "shift1 vs ! i = (if i = 0 then None else vs ! (i - 1))"
    using i ne by (cases i) (simp_all add: shift1_def nth_butlast)
  moreover have "i < length (shift1 vs)" using i ne by (simp add: shift1_def)
  ultimately show ?thesis using i by (auto simp: repeats_of_def cell_eq_def)
qed

lemma check_appends: "\<exists>msgs. check_consecutive_repeats df col out = out @ msgs"
  by (simp add: check_consecutive_repeats_def Let_def)

lemma one_of_distinct: "distinct names \<Longrightarrow> length (filter (\<lambda>n. n = c) names) \<le> 1"
  by (induction names) (auto simp: filter_empty_conv)

lemma audit_returns:
  "(\<And>c. c \<in> fst ` set cols \<Longrightarrow> length (filter (\<lambda>n. n = c) names) \<le> 1) \<Longrightarrow>
   \<exists>msgs. audit names idx cols out = (Inr (), out @ msgs)"
proof (induction cols arbitrary: out)
  case Nil
  then show ?case by simp
next
  case (Cons p cols)
  obtain col vs where p: "p = (col, vs)" by (cases p)
  have one: "\<not> 1 < length (filter (\<lambda>n. n = col) names)"
    using Cons.prems[of col] by (simp add: p)
  let ?out1 = "if length (filter (\<lambda>v. v = None) vs) > 0 then out @ [MissingValues col] else out"
  let ?out2 = "check_consecutive_repeats (idx, vs) col ?out1"
  let ?out3 = "if above_threshold vs then ?out2 @ [AboveThreshold col] else ?out2"
  have "\<exists>m1. ?out1 = out @ m1" by simp
  then obtain m1 where m1: "?out1 = out @ m1" by blast
  obtain m2 where m2: "check_consecutive_repeats (idx, vs) col (out @ m1) = (out @ m1) @ m2"
    using check_appends by blast
  have "\<exists>m3. ?out3 = out @ m3" unfolding m1 m2 by simp
  then obtain m3 where m3: "?out3 = out @ m3" by blast
  have "\<exists>msgs. audit names idx cols ?out3 = (Inr (), ?out3 @ msgs)"
    using Cons.prems by (intro Cons.IH) simp
  then obtain msgs where "audit names idx cols ?out3 = (Inr (), out @ m3 @ msgs)"
    unfolding m3 by auto
  moreover have "audit names idx (p # cols) out = audit names idx cols ?out3"
    unfolding p using one by (simp add: Let_def)
  ultimately show ?case by auto
qed

lemma audit_dataset_returns:
  assumes "distinct (map fst (columns dataset))"
  shows "\<exists>msgs. audit_dataset dataset s = (Inr (), s\<lparr>printed := printed s @ msgs\<rparr>)"
proof -
  obtain msgs where
    "audit (map fst (columns dataset)) (index dataset) (columns dataset) (printed s)
       = (Inr (), printed s @ msgs)"
    using audit_returns[of "columns dataset" "map fst (columns dataset)"]
      one_of_distinct[OF assms] by blast
  then show ?thesis by (auto simp: audit_dataset_def)
qed

text \<open>
  Claim C7, as the source has it. On the column \<open>[1, 1, 2, 3]\<close> the check reports the index
  position \<open>1\<close> and no other, and on any series it only appends to what has been printed.
  On a dataset whose columns have different names, the loop of the checks returns
  normally whatever the columns hold, having only printed.
\<close>

theorem repeats_flagged_at_1:
  "check_consecutive_repeats ([0, 1, 2, 3 :: nat], [Some 1, Some 1, Some 2, Some 3]) col out
     = out @ [RepeatsFound col, RepeatsAt [1]] \<and>
   (\<exists>msgs. check_consecutive_repeats df col out = out @ msgs) \<and>
   (distinct (map fst (columns dataset)) \<longrightarrow>
      (\<exists>msgs. audit_dataset dataset s = (Inr (), s\<lparr>printed := printed s @ msgs\<rparr>)))"
  using check_appends audit_dataset_returns
  by (simp add: check_consecutive_repeats_def repeats_example Let_def)

theorem repeats_flagged_at_1_witness:
  "distinct (map fst (columns \<lparr>index = [(2000, 1, 1), (2000, 2, 1), (2000, 3, 1)],
                               columns = [(''a'', [Some 1, Some 1, None]), (''b'', [None, None, None])]\<rparr>)) \<and>
   (\<exists>msgs. audit_dataset \<lparr>index = [(2000, 1, 1), (2000, 2, 1), (2000, 3, 1)],
                           columns = [(''a'', [Some 1, Some 1, None]), (''b'', [None, None, None])]\<rparr> ex_io
      = (Inr (), ex_io\<lparr>printed := printed ex_io @ msgs\<rparr>))"
  using repeats_flagged_at_1[of _ _ _ "\<lparr>index = [(2000, 1, 1), (2000, 2, 1), (2000, 3, 1)],
      columns = [(''a'', [Some 1, Some 1, None]), (''b'', [None, None, None])]\<rparr>" ex_io]
  by simp

text \<open>
  The claim as it was stated, that the checks never halt a run, fails on a dataset with
  two columns of one name: line 96 raises. A cluster file whose column has the name of an
  index variable gives such a dataset, and the run stops there.
\<close>

theorem audit_counterexample:
  "audit_dataset \<lparr>index = [(2000, 1, 1)], columns = [(''a'', [Some 1]), (''a'', [Some 2])]\<rparr> ex_io
     = (Inl (ValueError ''The truth value of a Series is ambiguous''), ex_io) \<and>
   build_dataset ex_world_same_name ''GLB'' [''sst''] [''nino''] ''cl'' ''ix'' ''tcg'' 2000 2000
       False False True ex_io
     = (Inl (ValueError ''The truth value of a Series is ambiguous''),
        \<lparr>opened = [''ix/nino.txt'', ''cl/averages_sst.csv''], printed = []\<rparr>)"
  by code_simp

section \<open>The target field of a basin\<close>







text \<open>
  The labels decide what the mask keeps: a mask of NEP on the longitudes \<open>-180\<close> to \<open>-75\<close>
  shares no label with the crop, whose longitudes are re-based to \<open>180\<close> to \<open>285\<close>, and
  leaves no column.
\<close>

lemma native_mask_leaves_nothing:
  "map_sum id (\<lambda>ds. (latitude ds, longitude ds)) (crop_field ex_field (-180) (-75) 0 40)
     = Inr ([(40, 1), (20, 2), (0, 3)], [(180, 0), (285, 1)]) \<and>
   map_sum id longitude
     (where_mask \<lparr>latitude = [(40, 1), (20, 2), (0, 3)], longitude = [(180, 0), (285, 1)], tcg = []\<rparr>
        \<lparr>mask_latitude = [40, 20, 0], mask_longitude = [-180, -75],
         mask_value = (\<lambda>y x. 1)\<rparr>) = Inr []"
  by code_simp

section \<open>What a run returns\<close>













lemma assemble_Inr:
  assumes "assemble w post basin bx cluster_variables index_variables cluster_path indexes_path
     target_path first_year last_year month_col s = (Inr (dataset, cal, tcg_col), s')"
  shows "\<exists>s1 s2. build_calendar w first_year last_year = Inr cal \<and>
     build_features w post cluster_variables index_variables cluster_path indexes_path
       cal month_col s1 = (Inr dataset, s2) \<and>
     build_target w basin bx target_path first_year last_year cal s2 = (Inr tcg_col, s')"
  using assms unfolding assemble_def
  apply (elim bind_InrE)
  apply (simp only: lift_Inr sum.inject prod.inject)
  apply (elim conjE)
  apply hypsubst
  apply (intro exI conjI)
    apply (rule refl | assumption)+
  done

lemma build_dataset_Inr:
  assumes "build_dataset w basin cluster_variables index_variables cluster_path indexes_path
     target_path first_year last_year deseasonalize detrend month_col s = (Inr r, s')"
  obtains bx cal dataset tcg_col s1 s2 where
    "basin_box basin = Inr bx"
    "build_calendar w first_year last_year = Inr cal"
    "build_features w (\<lambda>col. col) cluster_variables index_variables cluster_path indexes_path
       cal month_col s1 = (Inr dataset, s2)"
    "build_target w basin bx target_path first_year last_year cal s2 = (Inr tcg_col, s')"
    "r = decompose_target w deseasonalize detrend dataset cal tcg_col"
proof -
  from assms obtain bx dataset cal tcg_col s0 where
    b: "basin_box basin = Inr bx"
    and a: "assemble w (\<lambda>col. col) basin bx cluster_variables index_variables cluster_path
          indexes_path target_path first_year last_year month_col s0
          = (Inr (dataset, cal, tcg_col), s')"
    and r: "r = decompose_target w deseasonalize detrend dataset cal tcg_col"
    unfolding build_dataset_def by (elim bind_InrE) (auto split: prod.splits)
  from assemble_Inr[OF a] b r that show ?thesis by blast
qed








text \<open>
  Claim C10. With both flags set a run is the run with \<open>deseasonalize\<close> alone: what it
  returns is the tuple of the dataset, the target, the target minus the seasonal
  component and the seasonal component, all on the calendar of the run, and the flag
  \<open>detrend\<close> has no effect.
\<close>

theorem deseasonalize_takes_precedence:
  "build_dataset w basin cluster_variables index_variables cluster_path indexes_path
     target_path first_year last_year True True month_col s
   = build_dataset w basin cluster_variables index_variables cluster_path indexes_path
     target_path first_year last_year True False month_col s \<and>
   (\<forall>r s'. build_dataset w basin cluster_variables index_variables cluster_path indexes_path
       target_path first_year last_year True True month_col s = (Inr r, s') \<longrightarrow>
     (\<exists>cal dataset tcg_col.
        build_calendar w first_year last_year = Inr cal \<and>
        r = Tuple4 dataset
              (series_frame cal ''tcg'' tcg_col)
              (series_frame cal ''tcg'' (series_minus tcg_col (seasonal (STL_fit w tcg_col))))
              (series_frame cal ''season'' (seasonal (STL_fit w tcg_col))))) \<and>
   (1678 \<le> first_year \<and> first_year \<le> 2261 \<and> 1678 \<le> last_year \<and> last_year \<le> 2261 \<longrightarrow>
      build_calendar w first_year last_year = Inr (date_range first_year last_year))"
proof -
  have "\<exists>cal dataset tcg_col.
        build_calendar w first_year last_year = Inr cal \<and>
        r = Tuple4 dataset
              (series_frame cal ''tcg'' tcg_col)
              (series_frame cal ''tcg'' (series_minus tcg_col (seasonal (STL_fit w tcg_col))))
              (series_frame cal ''season'' (seasonal (STL_fit w tcg_col)))"
    if "build_dataset w basin cluster_variables index_variables cluster_path indexes_path
       target_path first_year last_year True True month_col s = (Inr r, s')" for r s'
  proof -
    from that obtain cal dataset tcg_col where
      "build_calendar w first_year last_year = Inr cal"
      "r = decompose_target w True True dataset cal tcg_col"
      by (rule build_dataset_Inr)
    then show ?thesis by (auto simp: decompose_target_def Let_def)
  qed
  moreover have "build_dataset w basin cluster_variables index_variables cluster_path indexes_path
     target_path first_year last_year True True month_col s
   = build_dataset w basin cluster_variables index_variables cluster_path indexes_path
     target_path first_year last_year True False month_col s"
    by (simp add: build_dataset_def decompose_target_def)
  moreover have "build_calendar w first_year last_year = Inr (date_range first_year last_year)"
    if "1678 \<le> first_year \<and> first_year \<le> 2261 \<and> 1678 \<le> last_year \<and> last_year \<le> 2261"
    using that by (intro build_calendar_in_range) simp_all
  ultimately show ?thesis by blast
qed

theorem deseasonalize_takes_precedence_witness:
  "\<exists>r s' dataset tcg_col.
     build_dataset ex_world ''GLB'' [''sst''] [''nino''] ''cl'' ''ix'' ''tcg'' 2000 2000
       True True False ex_io = (Inr r, s') \<and>
     build_dataset ex_world ''GLB'' [''sst''] [''nino''] ''cl'' ''ix'' ''tcg'' 2000 2000
       True False False ex_io = (Inr r, s') \<and>
     build_calendar ex_world 2000 2000 = Inr (date_range 2000 2000) \<and>
     r = Tuple4 dataset
           (series_frame (date_range 2000 2000) ''tcg'' tcg_col)
           (series_frame (date_range 2000 2000) ''tcg''
              (series_minus tcg_col (seasonal (STL_fit ex_world tcg_col))))
           (series_frame (date_range 2000 2000) ''season'' (seasonal (STL_fit ex_world tcg_col)))"
proof -
  let ?run = "build_dataset ex_world ''GLB'' [''sst''] [''nino''] ''cl'' ''ix'' ''tcg'' 2000 2000
       True True False ex_io"
  have "\<not> isl (fst ?run)" by code_simp
  then obtain r s' where run: "?run = (Inr r, s')"
    by (metis isl_def prod.collapse sum.exhaust_sel)
  note t = deseasonalize_takes_precedence[of ex_world "''GLB''" "[''sst'']" "[''nino'']" "''cl''"
      "''ix''" "''tcg''" 2000 2000 False ex_io]
  have same: "build_dataset ex_world ''GLB'' [''sst''] [''nino''] ''cl'' ''ix'' ''tcg'' 2000 2000
       True False False ex_io = (Inr r, s')"
    using t[THEN conjunct1] run by simp
  have cal: "build_calendar ex_world 2000 2000 = Inr (date_range 2000 2000)"
    using t[THEN conjunct2, THEN conjunct2] by simp
  from t[THEN conjunct2, THEN conjunct1, rule_format, OF run] cal
  obtain dataset tcg_col where
    "r = Tuple4 dataset
           (series_frame (date_range 2000 2000) ''tcg'' tcg_col)
           (series_frame (date_range 2000 2000) ''tcg''
              (series_minus tcg_col (seasonal (STL_fit ex_world tcg_col))))
           (series_frame (date_range 2000 2000) ''season'' (seasonal (STL_fit ex_world tcg_col)))"
    by auto
  with run same cal show ?thesis by (intro exI conjI)
qed

end
